theory Spec2Isabelle
  imports Complex_Main "HOL-Library.Sublist"
begin

section \<open>Python values used by the services\<close>

text \<open>
  Identifiers are Python integers (\<open>int\<close>), header values and JSON text are strings,
  a \<open>datetime\<close> is a point on a linear time line, and a finite Python \<open>float\<close> is
  taken by its rational value (every finite double is a rational; the rounding of float
  arithmetic and of decimal literals is not part of the model).  A parsed literal may also
  be one of the non-finite floats.  Characters are the code points below 256.
  \<open>datetime.utcnow()\<close> is an explicit argument \<open>now\<close> of every operation that reads
  the clock.
\<close>

type_synonym datetime = int

datatype pyfloat = Finite rat | PosInf | NegInf | NaN

datatype json =
    JNull
  | JBool bool
  | JInt int
  | JNum rat
  | JFloat pyfloat
  | JStr string
  | JArr "json list"
  | JObj "(string \<times> json) list"

text \<open>
  An \<open>HTTPException(status_code, detail)\<close> raised by an endpoint.  An exception that
  no handler of the endpoint catches reaches the framework, which answers 500.
\<close>

datatype http_error = HTTPException (status_code: nat) (detail: string)


subsection \<open>\<open>str.strip\<close>, \<open>int(str)\<close> and \<open>str(int)\<close>\<close>






















definition digit_char :: "nat \<Rightarrow> char" where
  "digit_char d = ''0123456789'' ! d"

fun nat_digits :: "nat \<Rightarrow> string" where
  "nat_digits n =
     (if n < 10 then [digit_char n]
      else nat_digits (n div 10) @ [digit_char (n mod 10)])"

declare nat_digits.simps [simp del]

definition py_str :: "int \<Rightarrow> string" where
  "py_str i = (if i < 0 then CHR ''-'' # nat_digits (nat (- i)) else nat_digits (nat i))"

section \<open>Rows of the relational store\<close>

text \<open>
  Each row type carries the attributes that the endpoints and services read and write on
  it.  A table is the list of its rows in the order in which a query without
  \<open>order_by\<close> returns them.
\<close>

record user =
  user_id :: int
  user_tenant_id :: int
  email :: string
  role :: string
  hashed_password :: string

record tenant =
  tenant_id :: int
  tenant_name :: string
  plan :: string

record alert =
  alert_id :: int
  alert_tenant_id :: int
  alert_kpi_id :: "int option"
  rule_json :: "(string \<times> json) list"
  severity :: string
  triggered_at :: datetime
  resolved_at :: "datetime option"
  details :: "(string \<times> json) list"
  acknowledged :: bool
  acknowledged_by :: "int option"
  acknowledged_at :: "datetime option"

record connector =
  connector_id :: int
  connector_tenant_id :: int
  connector_type :: string
  credentials_encrypted :: "string option"
  config_json :: "(string \<times> json) list"
  last_sync_at :: "datetime option"
  connector_created_at :: datetime

record raw_ingest =
  raw_ingest_id :: "int option"
  raw_tenant_id :: int
  raw_connector_id :: int
  payload_json :: "(string \<times> json) list"

record normalized_record =
  nr_tenant_id :: int
  entity_type :: string
  canonical_json :: "(string \<times> json) list"
  source_refs_json :: "(string \<times> json) list"
  nr_created_at :: "datetime option"

record kpi_definition =
  kpi_id :: int
  kpi_tenant_id :: int
  kpi_name :: string
  vertical :: string

record kpi_value =
  kv_id :: "int option"
  kv_tenant_id :: int
  kv_kpi_id :: int
  kv_timestamp :: datetime
  kv_value :: rat
  provenance :: "(string \<times> json) list"

record task =
  task_id :: int
  task_tenant_id :: int
  task_title :: string
  task_status :: string
  assigned_to :: "string option"
  task_created_at :: datetime

record store =
  users :: "user list"
  tenants :: "tenant list"
  alerts :: "alert list"
  connectors :: "connector list"
  raw_ingests :: "raw_ingest list"
  normalized_records :: "normalized_record list"
  kpi_definitions :: "kpi_definition list"
  kpi_values :: "kpi_value list"
  tasks :: "task list"


text \<open>The primary key that the store gives to a row added to a table with keys \<open>ks\<close>.\<close>

definition fresh_id :: "int list \<Rightarrow> int" where
  "fresh_id ks = 1 + fold max ks 0"

section \<open>Access guard\<close>



section \<open>Alert endpoints (\<open>app/api/alerts.py\<close>)\<close>




section \<open>Dictionaries\<close>




section \<open>CSV connector service (\<open>app/services/csv_connector.py\<close>)\<close>














section \<open>Live connector service (\<open>app/services/live_connectors.py\<close>)\<close>



section \<open>Connector endpoints (\<open>app/api/connectors.py\<close>)\<close>









section \<open>KPI value and dashboard endpoints (\<open>app/api/kpis.py\<close>, \<open>app/api/dashboard.py\<close>)\<close>











section \<open>Registration (\<open>app/api/auth.py\<close>)\<close>

record register_request =
  req_tenant_name :: string
  req_tenant_plan :: string
  req_email :: string
  req_password :: string
  req_role :: string

record token =
  access_token :: string
  token_type :: string
  token_tenant_id :: int
  token_user_id :: int

definition access_token_expire_minutes :: nat where
  "access_token_expire_minutes = 30"

text \<open>
  The password hash and the token signature are collaborators outside the sources
  (\<open>get_password_hash\<close>, \<open>create_access_token\<close>): the parameters \<open>hash\<close> and \<open>sign\<close>.
\<close>

definition register ::
  "(string \<Rightarrow> string) \<Rightarrow> ((string \<times> string) list \<Rightarrow> nat \<Rightarrow> string) \<Rightarrow> register_request \<Rightarrow> store
     \<Rightarrow> (http_error + token) \<times> store" where
  "register hash sign request db =
     (case find (\<lambda>u. email u = req_email request) (users db) of
        Some existing_user \<Rightarrow> (Inl (HTTPException 400 ''Email already registered''), db)
      | None \<Rightarrow>
          (let new_tenant =
                 \<lparr>tenant_id = fresh_id (map tenant_id (tenants db)),
                  tenant_name = req_tenant_name request,
                  plan = req_tenant_plan request\<rparr>;
               new_user =
                 \<lparr>user_id = fresh_id (map user_id (users db)),
                  user_tenant_id = tenant_id new_tenant,
                  email = req_email request,
                  role = req_role request,
                  hashed_password = hash (req_password request)\<rparr>
           in (Inr \<lparr>access_token =
                       sign [(''sub'', py_str (user_id new_user)),
                             (''tenant_id'', py_str (tenant_id new_tenant))]
                         access_token_expire_minutes,
                     token_type = ''bearer'',
                     token_tenant_id = tenant_id new_tenant,
                     token_user_id = user_id new_user\<rparr>,
               db\<lparr>tenants := tenants db @ [new_tenant], users := users db @ [new_user]\<rparr>)))"

section \<open>Alert engine (\<open>app/services/alert_engine.py\<close>)\<close>






text \<open>The keyword arguments of an \<open>Alert(...)\<close> that the engine builds and returns.\<close>

record new_alert =
  na_tenant_id :: int
  na_kpi_id :: int
  na_rule_json :: "(string \<times> json) list"
  na_severity :: string
  na_details :: "(string \<times> json) list"




text \<open>
  The anomaly detector combines three statistical methods (z-score and rolling-window
  statistics over numpy, an isolation forest from scikit-learn).  They are the fields of
  \<open>detector\<close>; the length guards around them are the code's.
\<close>

record anomaly =
  an_type :: string
  an_score :: rat
  an_value :: rat
  an_expected_range :: "rat \<times> rat"
  an_timestamp :: datetime

record detector =
  detect_z_score_anomalies :: "rat list \<Rightarrow> datetime list \<Rightarrow> anomaly list"
  detect_isolation_forest_anomalies :: "rat list \<Rightarrow> datetime list \<Rightarrow> anomaly list"
  detect_trend_anomalies :: "rat list \<Rightarrow> datetime list \<Rightarrow> anomaly list"

definition detector_detect_anomalies ::
  "detector \<Rightarrow> rat list \<Rightarrow> datetime list \<Rightarrow> anomaly list" where
  "detector_detect_anomalies d vals timestamps =
     (if length vals < 10 then []
      else detect_z_score_anomalies d vals timestamps
           @ detect_isolation_forest_anomalies d vals timestamps
           @ detect_trend_anomalies d vals timestamps)"

definition detect_anomalies ::
  "detector \<Rightarrow> kpi_value list \<Rightarrow> kpi_definition \<Rightarrow> new_alert list" where
  "detect_anomalies d kvs kd =
     (if length kvs < 10 then []
      else
        map (\<lambda>an.
               \<lparr>na_tenant_id = kpi_tenant_id kd,
                na_kpi_id = kpi_id kd,
                na_rule_json =
                  [(''name'', JStr ''Anomaly Detected''), (''type'', JStr ''anomaly''),
                   (''severity'', JStr ''medium''),
                   (''description'', JStr (''Anomaly detected in '' @ kpi_name kd))],
                na_severity = ''medium'',
                na_details =
                  [(''anomaly_type'', JStr (an_type an)),
                   (''anomaly_score'', JNum (an_score an)),
                   (''detected_value'', JNum (an_value an)),
                   (''expected_range'', JArr [JNum (fst (an_expected_range an)),
                                               JNum (snd (an_expected_range an))]),
                   (''timestamp'', JInt (an_timestamp an))]\<rparr>)
          (detector_detect_anomalies d (map kv_value kvs) (map kv_timestamp kvs)))"

section \<open>KPI engine (\<open>app/services/kpi_engine.py\<close>)\<close>











section \<open>Normalisation (\<open>app/services/csv_connector.py\<close>)\<close>









section \<open>Sample data\<close>

text \<open>Concrete rows and requests on which the properties below are exercised.\<close>

definition sample_user :: user where
  "sample_user =
     \<lparr>user_id = 5, user_tenant_id = 1, email = ''duplicate@example.com'', role = ''owner'',
      hashed_password = ''$2b$12$abc''\<rparr>"

definition sample_alert :: alert where
  "sample_alert =
     \<lparr>alert_id = 3, alert_tenant_id = 1, alert_kpi_id = Some 7,
      rule_json = [(''name'', JStr ''Low Conversion Rate Alert'')], severity = ''high'',
      triggered_at = 100, resolved_at = None, details = [],
      acknowledged = False, acknowledged_by = None, acknowledged_at = None\<rparr>"

definition foreign_alert :: alert where
  "foreign_alert = sample_alert\<lparr>alert_id := 4, alert_tenant_id := 2\<rparr>"

definition sample_kpi :: kpi_definition where
  "sample_kpi =
     \<lparr>kpi_id = 7, kpi_tenant_id = 1, kpi_name = ''Lead Conversion Rate'',
      vertical = ''marketing_agency''\<rparr>"

definition sample_kpi_value :: kpi_value where
  "sample_kpi_value =
     \<lparr>kv_id = Some 1, kv_tenant_id = 1, kv_kpi_id = 7, kv_timestamp = 90, kv_value = 8,
      provenance = []\<rparr>"

definition sample_connector :: connector where
  "sample_connector =
     \<lparr>connector_id = 2, connector_tenant_id = 1, connector_type = ''csv'',
      credentials_encrypted = None, config_json = [(''delimiter'', JStr '','')],
      last_sync_at = None, connector_created_at = 50\<rparr>"

definition sample_store :: store where
  "sample_store =
     \<lparr>users = [sample_user],
      tenants = [\<lparr>tenant_id = 1, tenant_name = ''Test Agency'', plan = ''starter''\<rparr>,
                 \<lparr>tenant_id = 2, tenant_name = ''Other Agency'', plan = ''starter''\<rparr>],
      alerts = [foreign_alert, sample_alert],
      connectors = [sample_connector],
      raw_ingests = [],
      normalized_records = [],
      kpi_definitions = [sample_kpi],
      kpi_values = [sample_kpi_value],
      tasks = []\<rparr>"

definition sample_register :: register_request where
  "sample_register =
     \<lparr>req_tenant_name = ''Test Agency 4'', req_tenant_plan = ''starter'',
      req_email = ''duplicate@example.com'', req_password = ''testpassword123'',
      req_role = ''owner''\<rparr>"

text \<open>A detector whose three methods flag every point they are given.\<close>

definition flag_all :: "rat list \<Rightarrow> datetime list \<Rightarrow> anomaly list" where
  "flag_all vals timestamps =
     map (\<lambda>(v, t). \<lparr>an_type = ''z_score_outlier'', an_score = 3, an_value = v,
                     an_expected_range = (0, 1), an_timestamp = t\<rparr>) (zip vals timestamps)"

definition eager_detector :: detector where
  "eager_detector =
     \<lparr>detect_z_score_anomalies = flag_all, detect_isolation_forest_anomalies = flag_all,
      detect_trend_anomalies = flag_all\<rparr>"




section \<open>The specification's reading of the calculation window\<close>





section \<open>Tenant scope of a store update\<close>



section \<open>Properties\<close>



subsection \<open>Evaluation of the sample data\<close>





subsection \<open>Anomaly detection on short series\<close>

text \<open>
  C10.  A series of fewer than ten KPI values yields no anomaly alert: the engine returns
  the empty list, and so does the detector on the extracted values, whatever the values
  are and whatever the three statistical methods would flag.
\<close>

theorem detect_anomalies_short_series:
  assumes "length kvs < 10"
  shows "detect_anomalies d kvs kd = []
         \<and> detector_detect_anomalies d (map kv_value kvs) (map kv_timestamp kvs) = []"
  using assms by (simp add: detect_anomalies_def detector_detect_anomalies_def)

theorem detect_anomalies_short_series_witness:
  "length [sample_kpi_value\<lparr>kv_value := 1000000\<rparr>] < 10
   \<and> detect_anomalies eager_detector [sample_kpi_value\<lparr>kv_value := 1000000\<rparr>] sample_kpi = []"
  using detect_anomalies_short_series
    [of "[sample_kpi_value\<lparr>kv_value := 1000000\<rparr>]" eager_detector sample_kpi]
  by simp

subsection \<open>KPI calculation without a formula\<close>




subsection \<open>Registration with a known email\<close>

text \<open>
  C7.  When a user row with the email of the request exists, \<open>register\<close> fails with
  status 400 and returns the store as it received it: no tenant row and no user row is
  added.
\<close>

theorem register_duplicate_email:
  assumes "existing \<in> set (users db)" and "email existing = req_email request"
  shows "register hash sign request db
           = (Inl (HTTPException 400 ''Email already registered''), db)"
proof -
  from assms have "find (\<lambda>u. email u = req_email request) (users db) \<noteq> None"
    by (auto simp: find_None_iff)
  then show ?thesis by (auto simp: register_def)
qed

theorem register_duplicate_email_witness:
  "sample_user \<in> set (users sample_store)
   \<and> email sample_user = req_email sample_register
   \<and> register (\<lambda>p. rev p) (\<lambda>claims minutes. ''token'') sample_register sample_store
       = (Inl (HTTPException 400 ''Email already registered''), sample_store)"
proof -
  have a: "sample_user \<in> set (users sample_store)" by (simp add: sample_store_def)
  have b: "email sample_user = req_email sample_register"
    by (simp add: sample_user_def sample_register_def)
  from register_duplicate_email [OF a b] a b show ?thesis by simp
qed

subsection \<open>Alert acknowledgement and resolution\<close>



subsection \<open>KPI calculation and the time window\<close>



subsection \<open>Normalisation keeps the raw value when a conversion fails\<close>

















subsection \<open>Alert conditions\<close>









subsection \<open>Reading back a printed integer\<close>













subsection \<open>Cross-tenant requests\<close>









subsection \<open>CSV upload and the size limit\<close>







subsection \<open>Tenant scope of reads and writes\<close>

























end
